theory Spec2Isabelle
  imports Main "HOL-Library.Word"
begin

section \<open>Go values\<close>

text \<open>
  The program is \<^verbatim>\<open>src/main.go\<close>. Go strings and byte slices are sequences of bytes; an
  Isabelle \<open>char\<close> is one byte, so both are modelled as \<open>string\<close>.

  Go's \<^verbatim>\<open>int\<close> is taken to be 64 bits wide (amd64, arm64). Signed arithmetic is written on
  \<open>int\<close> with the two's complement wrap-around spelled out by \<open>wrap64\<close>; \<^verbatim>\<open>uint64\<close>
  values are \<open>64 word\<close>.
\<close>

definition wrap64 :: "int \<Rightarrow> int" where
  "wrap64 x = (x + 2 ^ 63) mod 2 ^ 64 - 2 ^ 63"

text \<open>Go's integer quotient truncates towards zero; the divisor is never zero where it is used.\<close>

definition go_quot :: "int \<Rightarrow> int \<Rightarrow> int" where
  "go_quot a b = sgn a * sgn b * (\<bar>a\<bar> div \<bar>b\<bar>)"

text \<open>A Go \<^verbatim>\<open>error\<close> value: the two sentinels of package \<^verbatim>\<open>io\<close> and any other error by its text.\<close>

datatype error = EOF | ErrUnexpectedEOF | Err string

subsection \<open>\<^verbatim>\<open>fmt.Sprintf("%3d", n)\<close>\<close>

fun digits :: "nat \<Rightarrow> string" where
  "digits n =
     (if n < 10 then [''0123456789'' ! n]
      else digits (n div 10) @ [''0123456789'' ! (n mod 10)])"

declare digits.simps [simp del]

definition itoa :: "int \<Rightarrow> string" where
  "itoa i = (if i < 0 then CHR ''-'' # digits (nat (- i)) else digits (nat i))"

text \<open>Width 3, padded with spaces on the left; longer renderings are not cut.\<close>

definition sprintf_3d :: "int \<Rightarrow> string" where
  "sprintf_3d i = replicate (3 - length (itoa i)) CHR '' '' @ itoa i"

section \<open>\<^verbatim>\<open>progressBar\<close>\<close>

text \<open>
  The terminal is the environment of \<^verbatim>\<open>progressBar\<close>: \<open>windows\<close> says whether
  \<^verbatim>\<open>runtime.GOOS == "windows"\<close>, and \<open>term_width\<close> is the first result of
  \<^verbatim>\<open>terminal.GetSize(0)\<close> (its error is discarded by the source).
\<close>

record terminal =
  windows :: bool
  term_width :: int

text \<open>
  \<^verbatim>\<open>for i := 0; i < currentProgress; i++ { progressBar = progressBar + "=" }\<close>.
  The increment cannot overflow: it runs only when \<open>i\<close> is below another \<^verbatim>\<open>int\<close>.
\<close>

function fill_loop :: "int \<Rightarrow> int \<Rightarrow> string \<Rightarrow> string" where
  "fill_loop i currentProgress bar =
     (if i < currentProgress then fill_loop (i + 1) currentProgress (bar @ ''='') else bar)"
  by pat_completeness auto
termination
  by (relation "measure (\<lambda>(i, c, bar). nat (c - i))") auto

text \<open>
  \<^verbatim>\<open>for i := width; i > currentProgress; i-- { progressBar = progressBar + " " }\<close>.
  The decrement cannot overflow either.
\<close>

function rest_loop :: "int \<Rightarrow> int \<Rightarrow> string \<Rightarrow> string" where
  "rest_loop i currentProgress bar =
     (if i > currentProgress then rest_loop (i - 1) currentProgress (bar @ '' '') else bar)"
  by pat_completeness auto
termination
  by (relation "measure (\<lambda>(i, c, bar). nat (i - c))") auto

declare fill_loop.simps [simp del] rest_loop.simps [simp del]

definition progressBar :: "terminal \<Rightarrow> int \<Rightarrow> string" where
  "progressBar t progress =
     (let width = (if windows t then 80 else term_width t);
          width = wrap64 (width - 40);
          currentProgress = go_quot (wrap64 (progress * width)) 100;
          bar = ''['';
          bar = fill_loop 0 currentProgress bar;
          bar = bar @ ''>'';
          bar = rest_loop width currentProgress bar
      in bar @ ''] '' @ sprintf_3d progress @ ''%'')"

section \<open>Command line: \<^verbatim>\<open>init\<close>\<close>

text \<open>The package-level variables set by the flags.\<close>

record flags =
  sourceURL :: string
  remoteFile :: string
  localFile :: string
  timeout :: int
  verbose :: bool
  showFiles :: bool

text \<open>The defaults given to \<^verbatim>\<open>flag.StringVar\<close>, \<^verbatim>\<open>flag.IntVar\<close> and \<^verbatim>\<open>flag.BoolVar\<close>.\<close>

definition flag_defaults :: flags where
  "flag_defaults =
     \<lparr>sourceURL = '''', remoteFile = '''', localFile = '''', timeout = 5,
      verbose = False, showFiles = False\<rparr>"

text \<open>
  A command line, already split into its options. \<^verbatim>\<open>flag.Parse\<close> stores each value in
  its variable, the last occurrence winning; a \<^verbatim>\<open>-t\<close> value that does not fit an
  \<^verbatim>\<open>int\<close> is a parse error, on which the \<^verbatim>\<open>flag\<close> package exits with status 2.
\<close>

datatype flag_arg =
  Flag_u string | Flag_r string | Flag_o string | Flag_t int | Flag_v bool | Flag_l bool

fun set_flag :: "flags \<Rightarrow> flag_arg \<Rightarrow> flags option" where
  "set_flag f (Flag_u s) = Some (f\<lparr>sourceURL := s\<rparr>)"
| "set_flag f (Flag_r s) = Some (f\<lparr>remoteFile := s\<rparr>)"
| "set_flag f (Flag_o s) = Some (f\<lparr>localFile := s\<rparr>)"
| "set_flag f (Flag_t n) =
     (if - (2 ^ 63) \<le> n \<and> n < 2 ^ 63 then Some (f\<lparr>timeout := n\<rparr>) else None)"
| "set_flag f (Flag_v b) = Some (f\<lparr>verbose := b\<rparr>)"
| "set_flag f (Flag_l b) = Some (f\<lparr>showFiles := b\<rparr>)"

fun flag_Parse :: "flags \<Rightarrow> flag_arg list \<Rightarrow> flags option" where
  "flag_Parse f [] = Some f"
| "flag_Parse f (a # as) =
     (case set_flag f a of None \<Rightarrow> None | Some f' \<Rightarrow> flag_Parse f' as)"

text \<open>
  \<^verbatim>\<open>filepath.Base\<close> of the Go standard library, on a system whose only path separator
  is \<^verbatim>\<open>/\<close> and that has no volume names, as the library documents it: the last element of
  the path, after trailing separators are removed; \<^verbatim>\<open>"."\<close> for the empty path and a single
  separator for a path of separators only.
\<close>

definition strip_trailing :: "string \<Rightarrow> string" where
  "strip_trailing path = rev (dropWhile (\<lambda>c. c = CHR ''/'') (rev path))"

definition last_element :: "string \<Rightarrow> string" where
  "last_element path = rev (takeWhile (\<lambda>c. c \<noteq> CHR ''/'') (rev path))"

definition filepath_Base :: "string \<Rightarrow> string" where
  "filepath_Base path =
     (if path = '''' then ''.''
      else let path = last_element (strip_trailing path)
           in if path = '''' then ''/'' else path)"

text \<open>How a run of the process, or a part of it, ends.\<close>

datatype 'a step = Proceed 'a | Exit int | Panic string

definition newline :: string where
  "newline = [CHR 0x0A]"

text \<open>
  \<^verbatim>\<open>init\<close>, after the flags are declared: it returns what it printed on standard output
  (\<^verbatim>\<open>flag.PrintDefaults\<close> writes to standard error, which is not modelled). The slice
  expression \<^verbatim>\<open>remoteFile[:n]\<close> panics when \<open>n\<close> exceeds the length of the string.
\<close>

definition init :: "flag_arg list \<Rightarrow> string \<times> flags step" where
  "init args =
     (case flag_Parse flag_defaults args of
        None \<Rightarrow> ('''', Exit 2)
      | Some f \<Rightarrow>
          if sourceURL f = '''' then (''You must specify a URL'' @ newline, Exit 1)
          else if \<not> showFiles f then
            if remoteFile f = '''' then (''You must specify a remote filename'' @ newline, Exit 1)
            else if localFile f = '''' then
              (let n = length (filepath_Base (remoteFile f))
               in if n > length (remoteFile f) then ('''', Panic ''slice bounds out of range'')
                  else ('''', Proceed (f\<lparr>localFile := take n (remoteFile f)\<rparr>)))
            else ('''', Proceed f)
          else ('''', Proceed f))"

section \<open>The world outside the process\<close>

text \<open>A \<^verbatim>\<open>*os.File\<close>: \<^verbatim>\<open>os.Stdout\<close>, a file opened for writing, or \<^verbatim>\<open>nil\<close>.\<close>

datatype os_File = Stdout | OpenFile string | NilFile

text \<open>
  Files by path, the bytes written to standard output so far, the free space left on the
  device of the output file, and the paths at which \<^verbatim>\<open>os.Create\<close> fails. The field
  \<open>handed\<close> keeps, for each handle, the bytes that calls of its \<^verbatim>\<open>Write\<close> have taken;
  nothing in the program reads it.
\<close>

record world =
  fs :: "string \<Rightarrow> string option"
  stdout :: string
  space :: nat
  create_error :: "string \<Rightarrow> error option"
  handed :: "os_File \<Rightarrow> string"

definition print :: "world \<Rightarrow> string \<Rightarrow> world" where
  "print w s = w\<lparr>stdout := stdout w @ s\<rparr>"

text \<open>\<^verbatim>\<open>os.Create\<close> truncates or creates the file; on failure the handle is \<^verbatim>\<open>nil\<close>.\<close>

definition os_Create :: "world \<Rightarrow> string \<Rightarrow> os_File \<times> error option \<times> world" where
  "os_Create w path =
     (case create_error w path of
        Some e \<Rightarrow> (NilFile, Some e, w)
      | None \<Rightarrow> (OpenFile path, None, w\<lparr>fs := (fs w)(path \<mapsto> '''')\<rparr>))"

definition contents :: "world \<Rightarrow> string \<Rightarrow> string" where
  "contents w path = (case fs w path of None \<Rightarrow> '''' | Some c \<Rightarrow> c)"

text \<open>The record of a call of \<^verbatim>\<open>Write\<close> on handle \<open>h\<close> that took the bytes \<open>b\<close>.\<close>

definition hand :: "world \<Rightarrow> os_File \<Rightarrow> string \<Rightarrow> world" where
  "hand w h b = w\<lparr>handed := (handed w)(h := handed w h @ b)\<rparr>"

text \<open>
  \<^verbatim>\<open>(*os.File).Write\<close> returns the number of bytes written and an error when that is
  less than asked: standard output takes everything, a file takes what the device has
  room for, and a \<^verbatim>\<open>nil\<close> file takes nothing.
\<close>

fun os_File_Write :: "world \<Rightarrow> os_File \<Rightarrow> string \<Rightarrow> nat \<times> error option \<times> world" where
  "os_File_Write w Stdout b = (length b, None, hand (print w b) Stdout b)"
| "os_File_Write w (OpenFile path) b =
     (let k = min (length b) (space w)
      in (k, if k < length b then Some (Err ''no space left on device'') else None,
          hand (w\<lparr>fs := (fs w)(path \<mapsto> contents w path @ take k b), space := space w - k\<rparr>)
            (OpenFile path) (take k b)))"
| "os_File_Write w NilFile b = (0, Some (Err ''invalid argument''), w)"

text \<open>
  What has reached the file behind a handle: the bytes on standard output for
  \<^verbatim>\<open>os.Stdout\<close>, the contents of the file for a file opened for writing, nothing for
  \<^verbatim>\<open>nil\<close>. \<^verbatim>\<open>fmt.Printf\<close> and \<^verbatim>\<open>fmt.Println\<close> write to \<^verbatim>\<open>os.Stdout\<close> too.
\<close>

definition received :: "world \<Rightarrow> os_File \<Rightarrow> string" where
  "received w h =
     (case h of Stdout \<Rightarrow> stdout w | OpenFile path \<Rightarrow> contents w path | NilFile \<Rightarrow> '''')"

section \<open>The archive as \<^verbatim>\<open>archive/zip\<close> presents it\<close>

text \<open>
  An \<^verbatim>\<open>io.ReadCloser\<close>: the bytes it has still to deliver and the error it reports once
  they are delivered (\<open>EOF\<close> at a regular end, anything else for a failed read).
\<close>

record ReadCloser =
  pending :: string
  failure :: error

text \<open>
  A \<^verbatim>\<open>zip.File\<close>: the fields the program reads, and what \<^verbatim>\<open>file.Open()\<close> returns.
  A \<^verbatim>\<open>zip.Reader\<close>: its slice \<^verbatim>\<open>File\<close>, which is \<open>None\<close> when the slice is \<^verbatim>\<open>nil\<close>.
\<close>

record zip_File =
  Name :: string
  UncompressedSize64 :: "64 word"
  Open :: "error + ReadCloser"

record zip_Reader =
  File :: "zip_File list option"

text \<open>
  \<^verbatim>\<open>io.ReadFull(rc, buf)\<close> with \<open>k\<close> the length of \<open>buf\<close>: it reads until the buffer is
  full or the reader reports an error; a buffer filled in part at \<open>EOF\<close> is
  \<open>ErrUnexpectedEOF\<close>. It returns the bytes now in \<^verbatim>\<open>buf[:n]\<close>.
\<close>

definition io_ReadFull :: "ReadCloser \<Rightarrow> nat \<Rightarrow> string \<times> error option \<times> ReadCloser" where
  "io_ReadFull rc k =
     (let got = take k (pending rc);
          err = (if length got \<ge> k then None
                 else if length got > 0 \<and> failure rc = EOF then Some ErrUnexpectedEOF
                 else Some (failure rc))
      in (got, err, rc\<lparr>pending := drop k (pending rc)\<rparr>))"

section \<open>The HTTP client that \<^verbatim>\<open>main\<close> builds\<close>

text \<open>
  A \<^verbatim>\<open>time.Duration\<close> is an \<^verbatim>\<open>int64\<close> count of nanoseconds, and its product wraps.
  A \<^verbatim>\<open>*url.URL\<close> is given by its rendering, \<open>None\<close> being the \<^verbatim>\<open>nil\<close> pointer.
\<close>

definition time_Second :: int where
  "time_Second = 1000000000"

record http_Client =
  Timeout :: int

record HTTPRanger =
  URL :: "string option"
  Client :: http_Client

text \<open>
  The argument of \<^verbatim>\<open>ranger.NewReader\<close> in \<^verbatim>\<open>main\<close>, with the timeout
  \<^verbatim>\<open>time.Duration(timeout) * time.Second\<close>: the conversion of the \<^verbatim>\<open>int\<close> to \<^verbatim>\<open>int64\<close>,
  then the product.
\<close>

definition main_ranger :: "flags \<Rightarrow> string option \<Rightarrow> HTTPRanger" where
  "main_ranger f downloadURL =
     \<lparr>URL = downloadURL,
      Client = \<lparr>Timeout = wrap64 (wrap64 (timeout f) * time_Second)\<rparr>\<rparr>"

text \<open>\<^verbatim>\<open>fmt\<close> prints a \<^verbatim>\<open>nil\<close> pointer under \<^verbatim>\<open>%s\<close> as \<^verbatim>\<open><nil>\<close>.\<close>

definition url_String :: "string option \<Rightarrow> string" where
  "url_String u = (case u of None \<Rightarrow> ''<nil>'' | Some s \<Rightarrow> s)"

section \<open>The libraries and the terminal\<close>

text \<open>
  What the program calls outside \<^verbatim>\<open>main.go\<close>, with \<open>'r\<close> the type of
  \<^verbatim>\<open>*ranger.Reader\<close>: \<^verbatim>\<open>url.Parse\<close> (\<open>None\<close> when it fails and returns \<^verbatim>\<open>nil\<close>),
  \<^verbatim>\<open>ranger.NewReader\<close>, \<^verbatim>\<open>reader.Length()\<close>, \<^verbatim>\<open>zip.NewReader\<close>,
  \<^verbatim>\<open>humanize.Bytes\<close> and the terminal.
\<close>

record 'r libs =
  url_Parse :: "string \<Rightarrow> string option"
  ranger_NewReader :: "HTTPRanger \<Rightarrow> error + 'r"
  reader_Length :: "'r \<Rightarrow> int"
  zip_NewReader :: "'r \<Rightarrow> int \<Rightarrow> error + zip_Reader"
  humanize_Bytes :: "64 word \<Rightarrow> string"
  tty :: terminal

section \<open>\<^verbatim>\<open>downloadFile\<close>\<close>

text \<open>\<^verbatim>\<open>%10s\<close> pads on the left, \<^verbatim>\<open>%-10s\<close> on the right.\<close>

definition pad_left :: "nat \<Rightarrow> string \<Rightarrow> string" where
  "pad_left n s = replicate (n - length s) CHR '' '' @ s"

definition pad_right :: "nat \<Rightarrow> string \<Rightarrow> string" where
  "pad_right n s = s @ replicate (n - length s) CHR '' ''"

text \<open>\<^verbatim>\<open>buf := make([]byte, 128*1024)\<close>\<close>

definition bufsize :: nat where
  "bufsize = 128 * 1024"

text \<open>
  The line printed when \<^verbatim>\<open>verbose\<close> is set. \<^verbatim>\<open>downloaded*100/filesize\<close> is \<^verbatim>\<open>uint64\<close>
  arithmetic (the product wraps, the quotient is unsigned) and \<^verbatim>\<open>int(...)\<close> reads the
  result as signed. The caller has checked that \<open>filesize\<close> is not zero.
\<close>

definition progress_line :: "'r libs \<Rightarrow> 64 word \<Rightarrow> 64 word \<Rightarrow> string \<Rightarrow> string" where
  "progress_line L downloaded filesize humanizedFilesize =
     [CHR 0x0D] @ progressBar (tty L) (sint (downloaded * 100 div filesize)) @ '' ''
       @ pad_left 10 (humanize_Bytes L downloaded) @ ''/'' @ pad_right 10 humanizedFilesize"

text \<open>
  The \<^verbatim>\<open>for\<close> loop of the worker. The errors of \<^verbatim>\<open>io.ReadFull\<close> and of
  \<^verbatim>\<open>writer.Write\<close> are discarded by the source, and so they are here. With \<^verbatim>\<open>verbose\<close>
  set and a file size of zero the division panics, after the write. The result is
  \<open>True\<close> when the loop ended in a panic. The package variable \<^verbatim>\<open>verbose\<close> is the
  argument \<open>vb\<close>; \<^verbatim>\<open>humanizedFilesize\<close> is \<^verbatim>\<open>humanize.Bytes(filesize)\<close>.
\<close>

function copy_loop ::
  "'r libs \<Rightarrow> bool \<Rightarrow> 64 word \<Rightarrow> os_File \<Rightarrow> ReadCloser \<Rightarrow> 64 word \<Rightarrow> world \<Rightarrow> bool \<times> world" where
  "copy_loop L vb filesize writer rc downloaded w =
     (case io_ReadFull rc bufsize of
        (got, _, rc') \<Rightarrow>
          if length got > 0 then
            (case os_File_Write w writer got of
               (_, _, w') \<Rightarrow>
                 let downloaded' = downloaded + of_nat (length got)
                 in if vb then
                      if filesize = 0 then (True, w')
                      else copy_loop L vb filesize writer rc' downloaded'
                             (print w' (progress_line L downloaded' filesize
                                          (humanize_Bytes L filesize)))
                    else copy_loop L vb filesize writer rc' downloaded' w')
          else (False, w))"
  by pat_completeness auto
termination
proof (relation "measure (\<lambda>(L, vb, filesize, writer, rc, downloaded, w). length (pending rc))")
  show "wf (measure (\<lambda>(L :: 'r libs, vb :: bool, filesize :: 64 word, writer :: os_File,
      rc, downloaded :: 64 word, w :: world). length (pending rc)))"
    by simp
qed (auto simp: io_ReadFull_def bufsize_def Let_def)

declare copy_loop.simps [simp del]

text \<open>
  \<^verbatim>\<open>downloadFile\<close>: the worker's body, run to its end before the caller receives from
  the channel. It returns the error received, or ends in the worker's panic.
\<close>

definition downloadFile ::
  "'r libs \<Rightarrow> bool \<Rightarrow> zip_File \<Rightarrow> os_File \<Rightarrow> world \<Rightarrow> error option step \<times> world" where
  "downloadFile L vb file writer w =
     (case Open file of
        Inl err \<Rightarrow> (Proceed (Some err), w)
      | Inr rc \<Rightarrow>
          (case copy_loop L vb (UncompressedSize64 file) writer rc 0 w of
             (True, w') \<Rightarrow> (Panic ''integer divide by zero'', w')
           | (False, w') \<Rightarrow> (Proceed None, if vb then print w' newline else w')))"

section \<open>\<^verbatim>\<open>findFile\<close> and \<^verbatim>\<open>listFiles\<close>\<close>

text \<open>\<^verbatim>\<open>for _, f := range reader.File { if f.Name == filename { return f, nil } }\<close>\<close>

fun find_loop :: "zip_File list \<Rightarrow> string \<Rightarrow> zip_File option" where
  "find_loop [] filename = None"
| "find_loop (f # files) filename =
     (if Name f = filename then Some f else find_loop files filename)"

text \<open>
  \<^verbatim>\<open>findFile\<close> gets a pointer to the reader; the reader as it is after the call is the
  second component of the result.
\<close>

definition findFile :: "zip_Reader \<Rightarrow> string \<Rightarrow> (error + zip_File) \<times> zip_Reader" where
  "findFile reader filename =
     (case File reader of
        None \<Rightarrow> (Inl (Err ''file read error''), reader)
      | Some files \<Rightarrow>
          (case find_loop files filename of
             Some f \<Rightarrow> (Inr f, reader)
           | None \<Rightarrow> (Inl (Err ''Unable to find file''), reader)))"

fun list_loop :: "zip_File list \<Rightarrow> world \<Rightarrow> world" where
  "list_loop [] w = w"
| "list_loop (f # files) w = list_loop files (print w (Name f @ newline))"

definition listFiles :: "zip_Reader \<Rightarrow> world \<Rightarrow> error option \<times> world" where
  "listFiles reader w =
     (case File reader of
        None \<Rightarrow> (Some (Err ''file read error''), w)
      | Some files \<Rightarrow> (None, list_loop files w))"

section \<open>\<^verbatim>\<open>main\<close>\<close>

text \<open>
  \<^verbatim>\<open>main\<close> with the flags as \<^verbatim>\<open>init\<close> left them. It ends with an exit status
  (0 when \<^verbatim>\<open>main\<close> returns, 1 from \<^verbatim>\<open>os.Exit(1)\<close>) or in a panic. The error of
  \<^verbatim>\<open>url.Parse\<close> is overwritten before it is read; the result of \<^verbatim>\<open>listFiles\<close> is
  dropped; the deferred \<^verbatim>\<open>Close\<close> does not change what was written.
\<close>

definition main :: "'r libs \<Rightarrow> flags \<Rightarrow> world \<Rightarrow> unit step \<times> world" where
  "main L f w =
     (let downloadURL = url_Parse L (sourceURL f)
      in case ranger_NewReader L (main_ranger f downloadURL) of
           Inl err \<Rightarrow>
             (Exit 1, print w (''Unable to create reader for url: '' @ url_String downloadURL @ newline))
         | Inr reader \<Rightarrow>
             (case zip_NewReader L reader (reader_Length L reader) of
                Inl err \<Rightarrow>
                  (Exit 1,
                   print w (''Unable to create zip reader for url: '' @ url_String downloadURL @ newline))
              | Inr zipreader \<Rightarrow>
                  if showFiles f then (Exit 0, snd (listFiles zipreader w))
                  else
                    (case (if localFile f \<noteq> ''-'' then os_Create w (localFile f)
                           else (Stdout, None, w)) of
                       (localFileHandle, Some err, w1) \<Rightarrow>
                         (Exit 1, print w1 (''Unable to create local file: '' @ localFile f))
                     | (localFileHandle, None, w1) \<Rightarrow>
                         (case fst (findFile zipreader (remoteFile f)) of
                            Inl err \<Rightarrow>
                              (Exit 1, print w1 (''Unable find file: '' @ remoteFile f @ '' in zip.''))
                          | Inr foundFile \<Rightarrow>
                              (case downloadFile L (verbose f) foundFile localFileHandle w1 of
                                 (Panic m, w2) \<Rightarrow> (Panic m, w2)
                               | (Exit n, w2) \<Rightarrow> (Exit n, w2)
                               | (Proceed (Some err), w2) \<Rightarrow>
                                   (Exit 1,
                                    print w2 (''Unable read file '' @ remoteFile f @ '' from zip.''))
                               | (Proceed None, w2) \<Rightarrow> (Exit 0, w2))))))"

section \<open>The remote range source\<close>

text \<open>
  Modelled from the spec: the remote range source (RemoteRangeSource and RangeFetcher,
  sections 3, 4.1, 4.2 and 7 of the specification). Its code is the imported package
  \<^verbatim>\<open>github.com/cj123/ranger\<close>, of which \<^verbatim>\<open>main.go\<close> holds only the call of
  \<^verbatim>\<open>NewReader\<close>.

  A server answers a request \<^verbatim>\<open>Range: bytes=first-last\<close> with a response, or not at all
  (\<open>None\<close>, a connection error). A response has its status, the position of the first
  byte it serves, the total length it reports if any, its body, and the time in
  nanoseconds it took.
\<close>

datatype range_error =
  ResourceLengthUnknown | InvalidRange | RangeUnsupported | ShortRead | RangeMismatch
  | TransportTimeout | TransportError | BadStatus nat

record http_response =
  status :: nat
  served_from :: nat
  total :: "nat option"
  body :: string
  delay :: int

type_synonym http_server = "nat \<Rightarrow> nat \<Rightarrow> http_response option"

record RemoteRangeSource =
  ranger :: HTTPRanger
  TotalLength :: nat

text \<open>
  Modelled from the spec: construction probes the server with a ranged \<^verbatim>\<open>GET\<close> for the
  first byte and fails when no usable length comes back.
\<close>

definition NewReader :: "http_server \<Rightarrow> HTTPRanger \<Rightarrow> range_error + RemoteRangeSource" where
  "NewReader srv rg =
     (case srv 0 0 of
        None \<Rightarrow> Inl ResourceLengthUnknown
      | Some resp \<Rightarrow>
          if delay resp > Timeout (Client rg) then Inl ResourceLengthUnknown
          else (case total resp of
                  None \<Rightarrow> Inl ResourceLengthUnknown
                | Some n \<Rightarrow> Inr \<lparr>ranger = rg, TotalLength = n\<rparr>))"

definition Length :: "RemoteRangeSource \<Rightarrow> nat" where
  "Length src = TotalLength src"

text \<open>
  Modelled from the spec: RangeFetcher, steps 1 to 3 of section 4.2. One request with the
  caller's timeout; status 206 is required and 200 means that the server ignored the
  range; a short body is \<open>ShortRead\<close>; a longer one is cut to the length asked for when
  the served range covers the window, and is \<open>RangeMismatch\<close> otherwise.
\<close>

definition RangeFetcher :: "int \<Rightarrow> http_server \<Rightarrow> nat \<Rightarrow> nat \<Rightarrow> range_error + string" where
  "RangeFetcher tmo srv offset len =
     (case srv offset (offset + len - 1) of
        None \<Rightarrow> Inl TransportError
      | Some resp \<Rightarrow>
          if delay resp > tmo then Inl TransportTimeout
          else if status resp = 200 then Inl RangeUnsupported
          else if status resp \<noteq> 206 then Inl (BadStatus (status resp))
          else if length (body resp) < len then Inl ShortRead
          else if length (body resp) > len then
            (if served_from resp \<le> offset \<and> offset + len \<le> served_from resp + length (body resp)
             then Inr (take len (body resp)) else Inl RangeMismatch)
          else Inr (body resp))"

text \<open>
  Modelled from the spec: \<^verbatim>\<open>ReadAt\<close> of section 4.1. The window is checked against the
  length, then one fetch is made with the timeout of the source's client.
\<close>

definition ReadAt :: "http_server \<Rightarrow> RemoteRangeSource \<Rightarrow> nat \<Rightarrow> nat \<Rightarrow> range_error + string" where
  "ReadAt srv src offset len =
     (if len = 0 \<or> offset + len > Length src then Inl InvalidRange
      else RangeFetcher (Timeout (Client (ranger src))) srv offset len)"


text \<open>
  Modelled from the spec: the fixture of section 8, a server that holds the reference
  object \<open>obj\<close> and honours range requests; \<open>lat lo hi\<close> is the time it takes over
  the request for the range from \<open>lo\<close> to \<open>hi\<close>.
\<close>

definition fixture_server :: "string \<Rightarrow> (nat \<Rightarrow> nat \<Rightarrow> int) \<Rightarrow> http_server" where
  "fixture_server obj lat lo hi =
     (if lo < length obj \<and> lo \<le> hi then
        Some \<lparr>status = 206, served_from = lo, total = Some (length obj),
              body = take (hi + 1 - lo) (drop lo obj), delay = lat lo hi\<rparr>
      else
        Some \<lparr>status = 416, served_from = 0, total = Some (length obj), body = '''',
              delay = lat lo hi\<rparr>)"

section \<open>A small archive, for concrete runs\<close>

text \<open>
  An archive with an empty entry and an entry of three bytes, libraries that succeed, a
  terminal of 80 columns, an empty file system with room, and a command line.
\<close>

definition sample_entry :: zip_File where
  "sample_entry =
     \<lparr>Name = ''data.bin'', UncompressedSize64 = 3, Open = Inr \<lparr>pending = ''abc'', failure = EOF\<rparr>\<rparr>"

definition empty_entry :: zip_File where
  "empty_entry =
     \<lparr>Name = ''empty'', UncompressedSize64 = 0, Open = Inr \<lparr>pending = '''', failure = EOF\<rparr>\<rparr>"

definition sample_archive :: zip_Reader where
  "sample_archive = \<lparr>File = Some [empty_entry, sample_entry]\<rparr>"

definition sample_libs :: "unit libs" where
  "sample_libs =
     \<lparr>url_Parse = Some, ranger_NewReader = (\<lambda>rg. Inr ()), reader_Length = (\<lambda>r. 1024),
      zip_NewReader = (\<lambda>r n. Inr sample_archive), humanize_Bytes = (\<lambda>n. ''3 B''),
      tty = \<lparr>windows = False, term_width = 80\<rparr>\<rparr>"

definition sample_world :: world where
  "sample_world =
     \<lparr>fs = (\<lambda>p. None), stdout = '''', space = 4096, create_error = (\<lambda>p. None),
      handed = (\<lambda>h. '''')\<rparr>"

definition sample_flags :: flags where
  "sample_flags =
     \<lparr>sourceURL = ''http://host/a.zip'', remoteFile = ''data.bin'', localFile = ''out.bin'',
      timeout = 5, verbose = False, showFiles = False\<rparr>"

section \<open>Properties of \<^verbatim>\<open>progressBar\<close>\<close>

lemma wrap64_id: "- (2 ^ 63) \<le> x \<Longrightarrow> x < 2 ^ 63 \<Longrightarrow> wrap64 x = x"
  by (simp add: wrap64_def)

lemma go_quot_nonneg: "0 \<le> a \<Longrightarrow> 0 < b \<Longrightarrow> go_quot a b = a div b"
  by (cases "a = 0") (simp_all add: go_quot_def)

lemma fill_loop_replicate:
  "fill_loop i c bar = bar @ replicate (nat (c - i)) CHR ''=''"
proof (induction i c bar rule: fill_loop.induct)
  case (1 i c bar)
  show ?case
  proof (cases "i < c")
    case True
    then have "nat (c - i) = Suc (nat (c - (i + 1)))" by simp
    with True "1" show ?thesis
      by (simp add: fill_loop.simps [of i] replicate_app_Cons_same)
  next
    case False
    then show ?thesis by (simp add: fill_loop.simps [of i])
  qed
qed

lemma rest_loop_replicate:
  "rest_loop i c bar = bar @ replicate (nat (i - c)) CHR '' ''"
proof (induction i c bar rule: rest_loop.induct)
  case (1 i c bar)
  show ?case
  proof (cases "i > c")
    case True
    then have "nat (i - c) = Suc (nat (i - 1 - c))" by simp
    with True "1" show ?thesis
      by (simp add: rest_loop.simps [of i] replicate_app_Cons_same)
  next
    case False
    then show ?thesis by (simp add: rest_loop.simps [of i])
  qed
qed

lemma length_digits_small: "n < 1000 \<Longrightarrow> length (digits n) \<le> 3"
proof -
  assume n: "n < 1000"
  have one: "\<And>k. k < 10 \<Longrightarrow> length (digits k) = 1"
    by (simp add: digits.simps)
  have two: "\<And>k. k < 100 \<Longrightarrow> length (digits k) \<le> 2"
  proof -
    fix k :: nat assume "k < 100"
    then have "k div 10 < 10" by simp
    then show "length (digits k) \<le> 2"
      using one [of "k div 10"] one [of k] by (cases "k < 10") (simp_all add: digits.simps [of k])
  qed
  from n have "n div 10 < 100" by simp
  then show ?thesis
    using two [of "n div 10"] one [of n] by (cases "n < 10") (simp_all add: digits.simps [of n])
qed

lemma length_sprintf_3d: "0 \<le> p \<Longrightarrow> p \<le> 100 \<Longrightarrow> length (sprintf_3d p) = 3"
proof -
  assume "0 \<le> p" "p \<le> 100"
  then have "length (itoa p) \<le> 3"
    using length_digits_small [of "nat p"] by (simp add: itoa_def)
  then show ?thesis by (simp add: sprintf_3d_def)
qed

text \<open>
  Claim C10. For a progress value from 0 to 100 and a terminal of width \<open>W\<close> with
  \<open>W - 40 \<ge> 0\<close> (80 on Windows), \<^verbatim>\<open>progressBar\<close> returns \<^verbatim>\<open>[\<close>, then
  \<open>progress * (W - 40) div 100\<close> signs \<^verbatim>\<open>=\<close>, one \<^verbatim>\<open>>\<close>, spaces up to \<open>W - 40\<close> cells,
  then \<^verbatim>\<open>] \<close>, the percentage on three characters and \<^verbatim>\<open>%\<close>; its length is
  \<open>(W - 40) + 8\<close> whatever the progress. The bound on \<open>W\<close> says that \<open>100 * (W - 40)\<close> is
  an \<^verbatim>\<open>int\<close>; the width of a terminal is a 16-bit number of columns, far below it.
\<close>

theorem progressBar_layout:
  assumes "0 \<le> progress" and "progress \<le> 100"
    and "W = (if windows t then 80 else term_width t)"
    and "0 \<le> W - 40" and "W - 40 \<le> 92233720368547758"
  shows "progressBar t progress =
           ''['' @ replicate (nat (progress * (W - 40) div 100)) CHR ''='' @ ''>''
             @ replicate (nat (W - 40) - nat (progress * (W - 40) div 100)) CHR '' ''
             @ ''] '' @ sprintf_3d progress @ ''%''
         \<and> length (sprintf_3d progress) = 3
         \<and> length (progressBar t progress) = nat (W - 40) + 8"
proof -
  define width where "width = W - 40"
  define cp where "cp = progress * width div 100"
  have w0: "0 \<le> width" and w1: "width \<le> 92233720368547758"
    using assms by (simp_all add: width_def)
  have wrap_w: "wrap64 (W - 40) = width"
    using w0 w1 by (simp add: width_def wrap64_id)
  have p0: "0 \<le> progress * width"
    using assms(1) w0 by simp
  have le: "progress * width \<le> 100 * width"
    using assms(2) w0 by (simp add: mult_right_mono)
  then have p1: "progress * width \<le> 9223372036854775800"
    using w1 by linarith
  have wrap_p: "wrap64 (progress * width) = progress * width"
    using p0 p1 by (simp add: wrap64_id)
  have quot: "go_quot (progress * width) 100 = cp"
    using p0 by (simp add: go_quot_nonneg cp_def)
  have cp0: "0 \<le> cp"
    using p0 by (simp add: cp_def pos_imp_zdiv_nonneg_iff)
  have cp1: "cp \<le> width"
    using zdiv_mono1 [OF le, of 100] by (simp add: cp_def)
  have spaces: "nat (width - cp) = nat width - nat cp"
    using cp0 cp1 by simp
  have bar: "progressBar t progress =
      ''['' @ replicate (nat cp) CHR ''='' @ ''>'' @ replicate (nat width - nat cp) CHR '' ''
        @ ''] '' @ sprintf_3d progress @ ''%''"
    using assms(3) wrap_w wrap_p quot spaces
    by (simp add: progressBar_def Let_def fill_loop_replicate rest_loop_replicate)
  have len3: "length (sprintf_3d progress) = 3"
    using assms(1,2) by (rule length_sprintf_3d)
  have "nat cp \<le> nat width"
    using cp0 cp1 by simp
  then have "length (progressBar t progress) = nat width + 8"
    using len3 by (simp add: bar)
  with bar len3 show ?thesis
    by (simp add: width_def cp_def)
qed

theorem progressBar_layout_witness:
  "(0::int) \<le> 50 \<and> (50::int) \<le> 100 \<and> (0::int) \<le> 80 - 40
   \<and> progressBar \<lparr>windows = False, term_width = 80\<rparr> 50 =
       ''['' @ replicate 20 CHR ''='' @ ''>'' @ replicate 20 CHR '' '' @ ''] '' @ '' 50'' @ ''%''
   \<and> length (progressBar \<lparr>windows = False, term_width = 80\<rparr> 50) = 48"
  using progressBar_layout [of 50 80 "\<lparr>windows = False, term_width = 80\<rparr>"]
  by (simp add: sprintf_3d_def itoa_def digits.simps)

section \<open>Properties of the copy loop\<close>

lemma print_Nil: "print w [] = w"
  by (simp add: print_def)

lemma hand_Nil: "hand w h [] = w"
  by (simp add: hand_def)

lemma copy_loop_done:
  "pending rc = [] \<Longrightarrow> copy_loop L vb fsz writer rc d w = (False, w)"
  by (simp add: copy_loop.simps [of L vb fsz writer rc] io_ReadFull_def)

lemma copy_loop_unfold:
  "pending rc \<noteq> [] \<Longrightarrow> vb \<longrightarrow> fsz \<noteq> 0 \<Longrightarrow>
   copy_loop L vb fsz writer rc d w =
     copy_loop L vb fsz writer (rc\<lparr>pending := drop bufsize (pending rc)\<rparr>)
       (d + of_nat (length (take bufsize (pending rc))))
       (let w' = snd (snd (os_File_Write w writer (take bufsize (pending rc))))
        in if vb then print w' (progress_line L (d + of_nat (length (take bufsize (pending rc)))) fsz
                                 (humanize_Bytes L fsz))
           else w')"
  by (simp add: copy_loop.simps [of L vb fsz writer rc] io_ReadFull_def bufsize_def Let_def
      split: prod.splits)

lemma copy_loop_step:
  assumes "pending rc \<noteq> []" and "vb \<longrightarrow> fsz \<noteq> 0"
    and "chunk = take bufsize (pending rc)"
    and "snd (snd (os_File_Write w writer chunk)) = w1"
  shows "copy_loop L vb fsz writer rc d w =
     copy_loop L vb fsz writer (rc\<lparr>pending := drop bufsize (pending rc)\<rparr>)
       (d + of_nat (length chunk))
       (if vb then print w1 (progress_line L (d + of_nat (length chunk)) fsz (humanize_Bytes L fsz))
        else w1)"
  using assms(4) unfolding assms(3) copy_loop_unfold [OF assms(1,2)] by (simp add: Let_def)

lemma copy_loop_panic:
  "pending rc \<noteq> [] \<Longrightarrow>
   copy_loop L True 0 writer rc d w =
     (True, snd (snd (os_File_Write w writer (take bufsize (pending rc)))))"
  by (simp add: copy_loop.simps [of L True 0 writer rc] io_ReadFull_def bufsize_def Let_def
      split: prod.splits)

lemma chunk_facts:
  assumes "pending rc \<noteq> []" and "chunk = take bufsize (pending rc)"
    and "rc' = rc\<lparr>pending := drop bufsize (pending rc)\<rparr>"
  shows "chunk @ pending rc' = pending rc" and "length (pending rc') < length (pending rc)"
    and "length chunk + length (pending rc') = length (pending rc)"
  using assms by (simp_all add: bufsize_def)

lemma os_File_Write_room:
  "length b \<le> space w \<Longrightarrow>
   os_File_Write w (OpenFile p) b =
     (length b, None,
      hand (w\<lparr>fs := (fs w)(p \<mapsto> contents w p @ b), space := space w - length b\<rparr>) (OpenFile p) b)"
  by (simp add: Let_def min_absorb1)

lemma copy_loop_stdout_fs:
  "fs (snd (copy_loop L vb fsz Stdout rc d w)) = fs w"
proof (induction "length (pending rc)" arbitrary: rc d w rule: less_induct)
  case less
  show ?case
  proof (cases "pending rc = []")
    case True
    then show ?thesis by (simp add: copy_loop_done)
  next
    case False
    define rc' where "rc' = rc\<lparr>pending := drop bufsize (pending rc)\<rparr>"
    have "length (pending rc') < length (pending rc)"
      using chunk_facts(2) [OF False refl rc'_def] .
    then have IH: "fs (snd (copy_loop L vb fsz Stdout rc' d' w')) = fs w'" for d' w'
      by (rule less)
    show ?thesis
    proof (cases "vb \<and> fsz = 0")
      case True
      with False show ?thesis by (simp add: copy_loop_panic print_def hand_def)
    next
      case False
      then have ok: "vb \<longrightarrow> fsz \<noteq> 0" by simp
      show ?thesis
        unfolding copy_loop_step [OF \<open>pending rc \<noteq> []\<close> ok refl refl] rc'_def [symmetric] IH
        by (simp add: print_def hand_def)
    qed
  qed
qed

lemma copy_loop_stdout:
  assumes "vb \<longrightarrow> fsz \<noteq> 0"
  shows "fst (copy_loop L vb fsz Stdout rc d w) = False
       \<and> handed (snd (copy_loop L vb fsz Stdout rc d w)) =
           (handed w)(Stdout := handed w Stdout @ pending rc)
       \<and> (\<not> vb \<longrightarrow> stdout (snd (copy_loop L vb fsz Stdout rc d w)) = stdout w @ pending rc)"
proof (induction "length (pending rc)" arbitrary: rc d w rule: less_induct)
  case less
  show ?case
  proof (cases "pending rc = []")
    case True
    then show ?thesis by (simp add: copy_loop_done)
  next
    case False
    define chunk where "chunk = take bufsize (pending rc)"
    define rc' where "rc' = rc\<lparr>pending := drop bufsize (pending rc)\<rparr>"
    define d' where "d' = d + of_nat (length chunk)"
    define w1 where "w1 = hand (print w chunk) Stdout chunk"
    define w2 where
      "w2 = (if vb then print w1 (progress_line L d' fsz (humanize_Bytes L fsz)) else w1)"
    note cf = chunk_facts [OF False chunk_def rc'_def]
    have wr: "snd (snd (os_File_Write w Stdout chunk)) = w1"
      by (simp add: w1_def)
    have step: "copy_loop L vb fsz Stdout rc d w = copy_loop L vb fsz Stdout rc' d' w2"
      unfolding rc'_def d'_def w2_def
      by (rule copy_loop_step [OF False assms chunk_def wr])
    note IH = less.hyps [OF cf(2), of d' w2]
    have h2: "handed w2 = (handed w)(Stdout := handed w Stdout @ chunk)"
      by (simp add: w2_def w1_def hand_def print_def)
    have s2: "\<not> vb \<Longrightarrow> stdout w2 = stdout w @ chunk"
      by (simp add: w2_def w1_def hand_def print_def)
    show ?thesis
      unfolding step using IH h2 s2 cf(1) by simp
  qed
qed

lemma copy_loop_file:
  assumes "length (pending rc) \<le> space w" and "vb \<longrightarrow> fsz \<noteq> 0"
  shows "fst (copy_loop L vb fsz (OpenFile p) rc d w) = False
       \<and> contents (snd (copy_loop L vb fsz (OpenFile p) rc d w)) p = contents w p @ pending rc
       \<and> (\<forall>q. q \<noteq> p \<longrightarrow> fs (snd (copy_loop L vb fsz (OpenFile p) rc d w)) q = fs w q)
       \<and> (fs w p \<noteq> None \<longrightarrow> fs (snd (copy_loop L vb fsz (OpenFile p) rc d w)) p \<noteq> None)
       \<and> (\<not> vb \<longrightarrow> stdout (snd (copy_loop L vb fsz (OpenFile p) rc d w)) = stdout w)
       \<and> handed (snd (copy_loop L vb fsz (OpenFile p) rc d w)) =
           (handed w)(OpenFile p := handed w (OpenFile p) @ pending rc)"
  using assms(1)
proof (induction "length (pending rc)" arbitrary: rc d w rule: less_induct)
  case less
  show ?case
  proof (cases "pending rc = []")
    case True
    then show ?thesis by (simp add: copy_loop_done)
  next
    case False
    define chunk where "chunk = take bufsize (pending rc)"
    define rc' where "rc' = rc\<lparr>pending := drop bufsize (pending rc)\<rparr>"
    define d' where "d' = d + of_nat (length chunk)"
    define w1 where
      "w1 = hand (w\<lparr>fs := (fs w)(p \<mapsto> contents w p @ chunk), space := space w - length chunk\<rparr>)
              (OpenFile p) chunk"
    define w2 where
      "w2 = (if vb then print w1 (progress_line L d' fsz (humanize_Bytes L fsz)) else w1)"
    note cf = chunk_facts [OF False chunk_def rc'_def]
    have room: "length chunk \<le> space w"
      using less.prems cf(3) by linarith
    have wr: "snd (snd (os_File_Write w (OpenFile p) chunk)) = w1"
      using os_File_Write_room [OF room, of p] by (simp add: w1_def del: os_File_Write.simps)
    have step: "copy_loop L vb fsz (OpenFile p) rc d w = copy_loop L vb fsz (OpenFile p) rc' d' w2"
      unfolding rc'_def d'_def w2_def
      by (rule copy_loop_step [OF False assms(2) chunk_def wr])
    have room2: "length (pending rc') \<le> space w2"
      using less.prems cf(3) by (simp add: w2_def w1_def print_def hand_def)
    note IH = less.hyps [OF cf(2) room2, of d']
    have c2: "contents w2 p = contents w p @ chunk"
      by (simp add: w2_def w1_def contents_def print_def hand_def)
    have f2: "q \<noteq> p \<Longrightarrow> fs w2 q = fs w q" for q
      by (simp add: w2_def w1_def print_def hand_def)
    have s2: "\<not> vb \<Longrightarrow> stdout w2 = stdout w"
      by (simp add: w2_def w1_def hand_def)
    have n2: "fs w2 p \<noteq> None"
      by (simp add: w2_def w1_def print_def hand_def)
    have h2: "handed w2 = (handed w)(OpenFile p := handed w (OpenFile p) @ chunk)"
      by (simp add: w2_def w1_def hand_def print_def)
    show ?thesis
      unfolding step using IH c2 f2 s2 n2 h2 cf(1)
      by simp
  qed
qed

section \<open>Properties of \<^verbatim>\<open>downloadFile\<close>, \<^verbatim>\<open>findFile\<close> and \<^verbatim>\<open>main\<close>\<close>

lemma fs_print [simp]: "fs (print w s) = fs w"
  by (simp add: print_def)

lemma handed_print [simp]: "handed (print w s) = handed w"
  by (simp add: print_def)

lemma stdout_print [simp]: "stdout (print w s) = stdout w @ s"
  by (simp add: print_def)

lemma downloadFile_Open:
  assumes "Open file = Inr rc"
  shows "downloadFile L vb file writer w =
     (if fst (copy_loop L vb (UncompressedSize64 file) writer rc 0 w)
      then (Panic ''integer divide by zero'',
            snd (copy_loop L vb (UncompressedSize64 file) writer rc 0 w))
      else (Proceed None,
            if vb then print (snd (copy_loop L vb (UncompressedSize64 file) writer rc 0 w)) newline
            else snd (copy_loop L vb (UncompressedSize64 file) writer rc 0 w)))"
proof -
  obtain b w' where "copy_loop L vb (UncompressedSize64 file) writer rc 0 w = (b, w')"
    by (cases "copy_loop L vb (UncompressedSize64 file) writer rc 0 w")
  with assms show ?thesis
    by (cases b; cases vb) (simp_all add: downloadFile_def)
qed

lemma downloadFile_stdout_fs: "fs (snd (downloadFile L vb file Stdout w)) = fs w"
proof (cases "Open file")
  case (Inl e)
  then show ?thesis by (simp add: downloadFile_def)
next
  case (Inr rc)
  show ?thesis
    by (cases vb) (simp_all add: downloadFile_Open [OF Inr] copy_loop_stdout_fs)
qed

lemma downloadFile_stdout:
  assumes "Open file = Inr rc" and "vb \<longrightarrow> UncompressedSize64 file \<noteq> 0"
  shows "fst (downloadFile L vb file Stdout w) = Proceed None
       \<and> handed (snd (downloadFile L vb file Stdout w)) =
           (handed w)(Stdout := handed w Stdout @ pending rc)
       \<and> (\<not> vb \<longrightarrow> stdout (snd (downloadFile L vb file Stdout w)) = stdout w @ pending rc)"
  using copy_loop_stdout [OF assms(2), of L rc 0 w]
  by (cases vb) (simp_all add: downloadFile_Open [OF assms(1)])

lemma downloadFile_file:
  assumes "Open file = Inr rc" and "vb \<longrightarrow> UncompressedSize64 file \<noteq> 0"
    and "length (pending rc) \<le> space w" and "fs w p = Some old"
  shows "fst (downloadFile L vb file (OpenFile p) w) = Proceed None
       \<and> fs (snd (downloadFile L vb file (OpenFile p) w)) = (fs w)(p \<mapsto> old @ pending rc)
       \<and> handed (snd (downloadFile L vb file (OpenFile p) w)) =
           (handed w)(OpenFile p := handed w (OpenFile p) @ pending rc)
       \<and> (\<not> vb \<longrightarrow> stdout (snd (downloadFile L vb file (OpenFile p) w)) = stdout w)"
proof -
  let ?r = "copy_loop L vb (UncompressedSize64 file) (OpenFile p) rc 0 w"
  note cl = copy_loop_file [OF assms(3,2), of L p 0]
  from cl assms(4) obtain c where c: "fs (snd ?r) p = Some c"
    by auto
  with cl assms(4) have "c = old @ pending rc"
    by (simp add: contents_def)
  with c cl have "fs (snd ?r) q = ((fs w)(p \<mapsto> old @ pending rc)) q" for q
    by (cases "q = p") simp_all
  then have fs_r: "fs (snd ?r) = (fs w)(p \<mapsto> old @ pending rc)"
    by (rule ext)
  have "downloadFile L vb file (OpenFile p) w =
          (Proceed None, if vb then print (snd ?r) newline else snd ?r)"
    using cl by (simp add: downloadFile_Open [OF assms(1)] split del: if_split)
  with cl fs_r show ?thesis
    by (cases vb) simp_all
qed

text \<open>The last step of \<^verbatim>\<open>main\<close>, on the result of \<^verbatim>\<open>downloadFile\<close>.\<close>

lemma main_end:
  "(case d of
      (Panic m, w2) \<Rightarrow> (Panic m, w2)
    | (Exit n, w2) \<Rightarrow> (Exit n, w2)
    | (Proceed (Some err), w2) \<Rightarrow> (Exit 1, print w2 msg)
    | (Proceed None, w2) \<Rightarrow> (Exit 0, w2)) =
   (case fst d of
      Panic m \<Rightarrow> (Panic m, snd d)
    | Exit n \<Rightarrow> (Exit n, snd d)
    | Proceed (Some err) \<Rightarrow> (Exit 1, print (snd d) msg)
    | Proceed None \<Rightarrow> (Exit 0, snd d))"
  by (cases d) (simp split: step.splits option.splits)

lemma fs_main_end:
  "fs (snd (case r of
      Panic m \<Rightarrow> (Panic m, w2)
    | Exit n \<Rightarrow> (Exit n, w2)
    | Proceed (Some err) \<Rightarrow> (Exit 1, print w2 msg)
    | Proceed None \<Rightarrow> (Exit 0, w2))) = fs w2"
  by (simp split: step.splits option.splits)

lemma list_loop_fs: "fs (list_loop files w) = fs w"
  by (induction files arbitrary: w) simp_all

lemma downloadFile_error_iff:
  "(fst (downloadFile L vb file writer w) = Proceed (Some e)) = (Open file = Inl e)"
  by (auto simp: downloadFile_def split: sum.splits prod.splits bool.splits)

lemma downloadFile_no_exit: "fst (downloadFile L vb file writer w) \<noteq> Exit n"
  by (auto simp: downloadFile_def split: sum.splits prod.splits bool.splits)

lemma find_loop_find: "find_loop files name = find (\<lambda>f. Name f = name) files"
  by (induction files) simp_all

section \<open>The claims about \<^verbatim>\<open>downloadFile\<close>, \<^verbatim>\<open>findFile\<close> and \<^verbatim>\<open>main\<close>\<close>

text \<open>
  Claim C2 says that every failure of opening, reading and writing is returned by
  \<^verbatim>\<open>downloadFile\<close>. Only a failure of \<^verbatim>\<open>Open\<close> is (lemma \<open>downloadFile_error_iff\<close>).
  Here a read fails after three of six bytes, and \<^verbatim>\<open>downloadFile\<close> returns \<^verbatim>\<open>nil\<close>
  with the three bytes written; and a write to a device with room for one byte fails,
  and \<^verbatim>\<open>downloadFile\<close> returns \<^verbatim>\<open>nil\<close> with one byte of three in the file.
\<close>

theorem downloadFile_drops_failures:
  "downloadFile L False
     \<lparr>Name = ''data.bin'', UncompressedSize64 = 6,
      Open = Inr \<lparr>pending = ''abc'', failure = Err ''connection reset''\<rparr>\<rparr> Stdout sample_world
     = (Proceed None, sample_world\<lparr>stdout := ''abc'', handed := (handed sample_world)(Stdout := ''abc'')\<rparr>)
   \<and> io_ReadFull \<lparr>pending = ''abc'', failure = Err ''connection reset''\<rparr> bufsize
     = (''abc'', Some (Err ''connection reset''), \<lparr>pending = '''', failure = Err ''connection reset''\<rparr>)
   \<and> fst (downloadFile L False sample_entry (OpenFile ''out.bin'') (sample_world\<lparr>space := 1\<rparr>))
     = Proceed None
   \<and> fs (snd (downloadFile L False sample_entry (OpenFile ''out.bin'') (sample_world\<lparr>space := 1\<rparr>)))
        ''out.bin'' = Some ''a''
   \<and> fst (snd (os_File_Write (sample_world\<lparr>space := 1\<rparr>) (OpenFile ''out.bin'') ''abc''))
     = Some (Err ''no space left on device'')"
  by (simp add: downloadFile_def copy_loop.simps io_ReadFull_def bufsize_def sample_world_def
      sample_entry_def print_def hand_def contents_def Let_def)

text \<open>
  Claim C4, amended. For an entry of length zero (\<^verbatim>\<open>UncompressedSize64\<close> is 0, \<^verbatim>\<open>Open\<close>
  succeeds and the reader has nothing to deliver) \<^verbatim>\<open>downloadFile\<close> returns \<^verbatim>\<open>nil\<close>, no
  call of \<^verbatim>\<open>Write\<close> takes any byte and no file changes. The output writer receives zero
  bytes, except when \<^verbatim>\<open>verbose\<close> is set and the writer is \<^verbatim>\<open>os.Stdout\<close>: then it
  receives the line feed of \<^verbatim>\<open>fmt.Println()\<close>, and nothing else. Without \<^verbatim>\<open>verbose\<close>
  nothing at all changes.
\<close>

theorem downloadFile_empty_entry:
  assumes "UncompressedSize64 file = 0" and "Open file = Inr rc" and "pending rc = []"
  shows "downloadFile L vb file writer w = (Proceed None, if vb then print w newline else w)
       \<and> handed (snd (downloadFile L vb file writer w)) = handed w
       \<and> fs (snd (downloadFile L vb file writer w)) = fs w
       \<and> (\<not> (vb \<and> writer = Stdout) \<longrightarrow>
            received (snd (downloadFile L vb file writer w)) writer = received w writer)
       \<and> (vb \<and> writer = Stdout \<longrightarrow>
            received (snd (downloadFile L vb file writer w)) writer = received w writer @ newline)
       \<and> (\<not> vb \<longrightarrow> snd (downloadFile L vb file writer w) = w)"
proof -
  have d: "downloadFile L vb file writer w = (Proceed None, if vb then print w newline else w)"
    using assms by (simp add: downloadFile_def copy_loop_done)
  show ?thesis
    unfolding d by (cases writer) (simp_all add: received_def contents_def print_def)
qed

theorem downloadFile_empty_entry_witness:
  "UncompressedSize64 empty_entry = 0
   \<and> downloadFile sample_libs False empty_entry (OpenFile ''out.bin'') sample_world
       = (Proceed None, sample_world)
   \<and> downloadFile sample_libs False empty_entry Stdout sample_world = (Proceed None, sample_world)
   \<and> received (snd (downloadFile sample_libs True empty_entry (OpenFile ''out.bin'') sample_world))
         (OpenFile ''out.bin'') = ''''
   \<and> handed (snd (downloadFile sample_libs True empty_entry Stdout sample_world)) Stdout = ''''
   \<and> received (snd (downloadFile sample_libs True empty_entry Stdout sample_world)) Stdout = newline"
  using downloadFile_empty_entry [of empty_entry "\<lparr>pending = '''', failure = EOF\<rparr>" sample_libs
      False "OpenFile ''out.bin''" sample_world]
    downloadFile_empty_entry [of empty_entry "\<lparr>pending = '''', failure = EOF\<rparr>" sample_libs
      False Stdout sample_world]
    downloadFile_empty_entry [of empty_entry "\<lparr>pending = '''', failure = EOF\<rparr>" sample_libs
      True "OpenFile ''out.bin''" sample_world]
    downloadFile_empty_entry [of empty_entry "\<lparr>pending = '''', failure = EOF\<rparr>" sample_libs
      True Stdout sample_world]
  by (simp add: empty_entry_def sample_world_def received_def contents_def)

text \<open>
  Claim C4 as stated says that zero bytes are written to the output writer for every
  writer. With \<^verbatim>\<open>verbose\<close> set and \<^verbatim>\<open>os.Stdout\<close> as the writer (the output file name
  \<^verbatim>\<open>-\<close>), the empty entry leaves one byte, a line feed, on the writer.
\<close>

theorem downloadFile_empty_entry_counterexample:
  "UncompressedSize64 empty_entry = 0
   \<and> Open empty_entry = Inr \<lparr>pending = '''', failure = EOF\<rparr>
   \<and> fst (downloadFile sample_libs True empty_entry Stdout sample_world) = Proceed None
   \<and> received sample_world Stdout = ''''
   \<and> received (snd (downloadFile sample_libs True empty_entry Stdout sample_world)) Stdout
       = [CHR 0x0A]
   \<and> length (received (snd (downloadFile sample_libs True empty_entry Stdout sample_world)) Stdout)
       \<noteq> length (received sample_world Stdout)"
  by (simp add: empty_entry_def sample_world_def downloadFile_def copy_loop_done received_def
      print_def newline_def)

text \<open>
  Claim C5. Each of the five error branches of \<^verbatim>\<open>main\<close> prints its message and ends the
  process with exit status 1: no remote reader (the message names the URL as
  \<^verbatim>\<open>url.Parse\<close> returned it), no zip reader (the same), no local file (the message names
  the file), no entry of that name (the message names the entry), and a failed download
  (the message names the entry).
\<close>

theorem main_failures:
  "(ranger_NewReader L (main_ranger f (url_Parse L (sourceURL f))) = Inl e \<longrightarrow>
      main L f w =
        (Exit 1, print w (''Unable to create reader for url: ''
                            @ url_String (url_Parse L (sourceURL f)) @ newline)))
   \<and> (ranger_NewReader L (main_ranger f (url_Parse L (sourceURL f))) = Inr reader
      \<and> zip_NewReader L reader (reader_Length L reader) = Inl e \<longrightarrow>
      main L f w =
        (Exit 1, print w (''Unable to create zip reader for url: ''
                            @ url_String (url_Parse L (sourceURL f)) @ newline)))
   \<and> (ranger_NewReader L (main_ranger f (url_Parse L (sourceURL f))) = Inr reader
      \<and> zip_NewReader L reader (reader_Length L reader) = Inr zipreader
      \<and> \<not> showFiles f \<and> localFile f \<noteq> ''-'' \<and> create_error w (localFile f) = Some e \<longrightarrow>
      main L f w = (Exit 1, print w (''Unable to create local file: '' @ localFile f)))
   \<and> (ranger_NewReader L (main_ranger f (url_Parse L (sourceURL f))) = Inr reader
      \<and> zip_NewReader L reader (reader_Length L reader) = Inr zipreader
      \<and> \<not> showFiles f
      \<and> (if localFile f \<noteq> ''-'' then os_Create w (localFile f) else (Stdout, None, w))
          = (h, None, w1)
      \<and> fst (findFile zipreader (remoteFile f)) = Inl e \<longrightarrow>
      main L f w = (Exit 1, print w1 (''Unable find file: '' @ remoteFile f @ '' in zip.'')))
   \<and> (ranger_NewReader L (main_ranger f (url_Parse L (sourceURL f))) = Inr reader
      \<and> zip_NewReader L reader (reader_Length L reader) = Inr zipreader
      \<and> \<not> showFiles f
      \<and> (if localFile f \<noteq> ''-'' then os_Create w (localFile f) else (Stdout, None, w))
          = (h, None, w1)
      \<and> fst (findFile zipreader (remoteFile f)) = Inr entry
      \<and> downloadFile L (verbose f) entry h w1 = (Proceed (Some e), w2) \<longrightarrow>
      main L f w = (Exit 1, print w2 (''Unable read file '' @ remoteFile f @ '' from zip.'')))"
proof (intro conjI impI)
  assume "ranger_NewReader L (main_ranger f (url_Parse L (sourceURL f))) = Inl e"
  then show "main L f w =
        (Exit 1, print w (''Unable to create reader for url: ''
                            @ url_String (url_Parse L (sourceURL f)) @ newline))"
    by (simp add: main_def Let_def)
next
  assume "ranger_NewReader L (main_ranger f (url_Parse L (sourceURL f))) = Inr reader
      \<and> zip_NewReader L reader (reader_Length L reader) = Inl e"
  then show "main L f w =
        (Exit 1, print w (''Unable to create zip reader for url: ''
                            @ url_String (url_Parse L (sourceURL f)) @ newline))"
    by (simp add: main_def Let_def)
next
  assume "ranger_NewReader L (main_ranger f (url_Parse L (sourceURL f))) = Inr reader
      \<and> zip_NewReader L reader (reader_Length L reader) = Inr zipreader
      \<and> \<not> showFiles f \<and> localFile f \<noteq> ''-'' \<and> create_error w (localFile f) = Some e"
  then show "main L f w = (Exit 1, print w (''Unable to create local file: '' @ localFile f))"
    by (simp add: main_def Let_def os_Create_def)
next
  assume "ranger_NewReader L (main_ranger f (url_Parse L (sourceURL f))) = Inr reader
      \<and> zip_NewReader L reader (reader_Length L reader) = Inr zipreader
      \<and> \<not> showFiles f
      \<and> (if localFile f \<noteq> ''-'' then os_Create w (localFile f) else (Stdout, None, w))
          = (h, None, w1)
      \<and> fst (findFile zipreader (remoteFile f)) = Inl e"
  then show "main L f w = (Exit 1, print w1 (''Unable find file: '' @ remoteFile f @ '' in zip.''))"
    by (simp add: main_def Let_def split del: if_split)
next
  assume "ranger_NewReader L (main_ranger f (url_Parse L (sourceURL f))) = Inr reader
      \<and> zip_NewReader L reader (reader_Length L reader) = Inr zipreader
      \<and> \<not> showFiles f
      \<and> (if localFile f \<noteq> ''-'' then os_Create w (localFile f) else (Stdout, None, w))
          = (h, None, w1)
      \<and> fst (findFile zipreader (remoteFile f)) = Inr entry
      \<and> downloadFile L (verbose f) entry h w1 = (Proceed (Some e), w2)"
  then show "main L f w = (Exit 1, print w2 (''Unable read file '' @ remoteFile f @ '' from zip.''))"
    by (simp add: main_def Let_def split del: if_split)
qed

theorem main_failures_witness:
  "main (sample_libs\<lparr>ranger_NewReader := \<lambda>rg. Inl (Err ''HEAD failed'')\<rparr>) sample_flags sample_world
     = (Exit 1, print sample_world (''Unable to create reader for url: http://host/a.zip'' @ newline))
   \<and> main (sample_libs\<lparr>zip_NewReader := \<lambda>r n. Inl (Err ''zip: not a valid zip file'')\<rparr>)
       sample_flags sample_world
     = (Exit 1, print sample_world (''Unable to create zip reader for url: http://host/a.zip'' @ newline))
   \<and> main sample_libs sample_flags (sample_world\<lparr>create_error := \<lambda>p. Some (Err ''permission denied'')\<rparr>)
     = (Exit 1, print (sample_world\<lparr>create_error := \<lambda>p. Some (Err ''permission denied'')\<rparr>)
                  ''Unable to create local file: out.bin'')
   \<and> main sample_libs (sample_flags\<lparr>remoteFile := ''missing'', localFile := ''-''\<rparr>) sample_world
     = (Exit 1, print sample_world ''Unable find file: missing in zip.'')
   \<and> main (sample_libs\<lparr>zip_NewReader := \<lambda>r n. Inr \<lparr>File = Some [sample_entry\<lparr>Open := Inl (Err ''zip: unsupported compression algorithm'')\<rparr>]\<rparr>\<rparr>)
       (sample_flags\<lparr>localFile := ''-''\<rparr>) sample_world
     = (Exit 1, print sample_world ''Unable read file data.bin from zip.'')"
  using main_failures [where L = "sample_libs\<lparr>ranger_NewReader := \<lambda>rg. Inl (Err ''HEAD failed'')\<rparr>"
      and f = sample_flags and w = sample_world and e = "Err ''HEAD failed''"]
    main_failures [where L = "sample_libs\<lparr>zip_NewReader := \<lambda>r n. Inl (Err ''zip: not a valid zip file'')\<rparr>"
      and f = sample_flags and w = sample_world and e = "Err ''zip: not a valid zip file''"
      and reader = "()"]
    main_failures [where L = sample_libs and f = sample_flags
      and w = "sample_world\<lparr>create_error := \<lambda>p. Some (Err ''permission denied'')\<rparr>"
      and e = "Err ''permission denied''" and reader = "()" and zipreader = sample_archive]
    main_failures [where L = sample_libs
      and f = "sample_flags\<lparr>remoteFile := ''missing'', localFile := ''-''\<rparr>"
      and w = sample_world and e = "Err ''Unable to find file''" and reader = "()"
      and zipreader = sample_archive and h = Stdout and ?w1.0 = sample_world]
    main_failures [where L = "sample_libs\<lparr>zip_NewReader := \<lambda>r n. Inr \<lparr>File = Some [sample_entry\<lparr>Open := Inl (Err ''zip: unsupported compression algorithm'')\<rparr>]\<rparr>\<rparr>"
      and f = "sample_flags\<lparr>localFile := ''-''\<rparr>"
      and w = sample_world and e = "Err ''zip: unsupported compression algorithm''" and reader = "()"
      and zipreader = "\<lparr>File = Some [sample_entry\<lparr>Open := Inl (Err ''zip: unsupported compression algorithm'')\<rparr>]\<rparr>"
      and h = Stdout and ?w1.0 = sample_world and ?w2.0 = sample_world
      and entry = "sample_entry\<lparr>Open := Inl (Err ''zip: unsupported compression algorithm'')\<rparr>"]
  by (simp add: sample_libs_def sample_flags_def sample_archive_def sample_entry_def
      empty_entry_def findFile_def downloadFile_def url_String_def)

text \<open>
  Claim C7. For a reader whose \<^verbatim>\<open>File\<close> slice is not \<^verbatim>\<open>nil\<close>, \<^verbatim>\<open>findFile\<close> returns an
  entry with the name asked for exactly when the slice holds one, and then the first such
  entry of the slice; it returns an error otherwise; and it leaves the reader as it was.
\<close>

theorem findFile_finds:
  assumes "File reader = Some files"
  shows "((\<exists>f. fst (findFile reader name) = Inr f \<and> Name f = name) = (\<exists>f \<in> set files. Name f = name))
       \<and> (case fst (findFile reader name) of
            Inr f \<Rightarrow> f \<in> set files \<and> Name f = name
          | Inl e \<Rightarrow> \<forall>f \<in> set files. Name f \<noteq> name)
       \<and> fst (findFile reader name) =
           (case find (\<lambda>f. Name f = name) files of
              Some f \<Rightarrow> Inr f | None \<Rightarrow> Inl (Err ''Unable to find file''))
       \<and> snd (findFile reader name) = reader"
proof (cases "find (\<lambda>f. Name f = name) files")
  case None
  then have "\<forall>f \<in> set files. Name f \<noteq> name"
    by (simp add: find_None_iff)
  with None assms show ?thesis
    by (auto simp: findFile_def find_loop_find)
next
  case (Some f)
  then have "f \<in> set files \<and> Name f = name"
    by (auto simp: find_Some_iff)
  with Some assms show ?thesis
    by (auto simp: findFile_def find_loop_find)
qed

theorem findFile_finds_witness:
  "File sample_archive = Some [empty_entry, sample_entry]
   \<and> findFile sample_archive ''data.bin'' = (Inr sample_entry, sample_archive)
   \<and> findFile sample_archive ''missing'' = (Inl (Err ''Unable to find file''), sample_archive)"
  using findFile_finds [of sample_archive "[empty_entry, sample_entry]" "''data.bin''"]
    findFile_finds [of sample_archive "[empty_entry, sample_entry]" "''missing''"]
  by (simp add: sample_archive_def sample_entry_def empty_entry_def prod_eq_iff)

text \<open>
  Claim C8. The bytes of the entry go to one sink, chosen by the output file name. When
  it is \<^verbatim>\<open>-\<close> no file is created or changed, on any path through \<^verbatim>\<open>main\<close>, and in a run
  that extracts the entry its bytes are what \<^verbatim>\<open>os.Stdout\<close>'s \<^verbatim>\<open>Write\<close> takes (and, without
  \<^verbatim>\<open>verbose\<close>, all that standard output receives). Otherwise the file is created at the
  path given and, in a run that extracts the entry with room on the device, it holds
  exactly the bytes of the entry, which only that file's \<^verbatim>\<open>Write\<close> takes, and nothing of
  them reaches standard output.
\<close>

theorem main_sink:
  "(localFile f = ''-'' \<longrightarrow> fs (snd (main L f w)) = fs w)
   \<and> (ranger_NewReader L (main_ranger f (url_Parse L (sourceURL f))) = Inr reader
      \<and> zip_NewReader L reader (reader_Length L reader) = Inr zipreader
      \<and> \<not> showFiles f
      \<and> fst (findFile zipreader (remoteFile f)) = Inr entry
      \<and> Open entry = Inr rc
      \<and> (verbose f \<longrightarrow> UncompressedSize64 entry \<noteq> 0) \<longrightarrow>
        (localFile f = ''-'' \<longrightarrow>
           fst (main L f w) = Exit 0
         \<and> handed (snd (main L f w)) = (handed w)(Stdout := handed w Stdout @ pending rc)
         \<and> (\<not> verbose f \<longrightarrow> stdout (snd (main L f w)) = stdout w @ pending rc))
      \<and> (localFile f \<noteq> ''-'' \<and> create_error w (localFile f) = None
          \<and> length (pending rc) \<le> space w \<longrightarrow>
           fst (main L f w) = Exit 0
         \<and> fs (snd (main L f w)) = (fs w)(localFile f \<mapsto> pending rc)
         \<and> handed (snd (main L f w)) =
             (handed w)(OpenFile (localFile f) := handed w (OpenFile (localFile f)) @ pending rc)
         \<and> (\<not> verbose f \<longrightarrow> stdout (snd (main L f w)) = stdout w)))"
proof (intro conjI impI)
  assume dash: "localFile f = ''-''"
  show "fs (snd (main L f w)) = fs w"
  proof -
    show ?thesis
      using dash
      by (simp add: main_def main_end fs_main_end downloadFile_stdout_fs Let_def listFiles_def
          list_loop_fs split: sum.splits option.splits)
  qed
next
  assume ok: "ranger_NewReader L (main_ranger f (url_Parse L (sourceURL f))) = Inr reader
      \<and> zip_NewReader L reader (reader_Length L reader) = Inr zipreader
      \<and> \<not> showFiles f
      \<and> fst (findFile zipreader (remoteFile f)) = Inr entry
      \<and> Open entry = Inr rc
      \<and> (verbose f \<longrightarrow> UncompressedSize64 entry \<noteq> 0)"
  {
    assume dash: "localFile f = ''-''"
    have d: "fst (downloadFile L (verbose f) entry Stdout w) = Proceed None
       \<and> handed (snd (downloadFile L (verbose f) entry Stdout w)) =
           (handed w)(Stdout := handed w Stdout @ pending rc)
       \<and> (\<not> verbose f \<longrightarrow>
            stdout (snd (downloadFile L (verbose f) entry Stdout w)) = stdout w @ pending rc)"
      using ok by (intro downloadFile_stdout) simp_all
    have m: "main L f w = (Exit 0, snd (downloadFile L (verbose f) entry Stdout w))"
      using ok dash d by (simp add: main_def Let_def main_end)
    from d show "fst (main L f w) = Exit 0"
      unfolding m by simp
    from d show "handed (snd (main L f w)) = (handed w)(Stdout := handed w Stdout @ pending rc)"
      unfolding m by simp
    {
      assume "\<not> verbose f"
      with d show "stdout (snd (main L f w)) = stdout w @ pending rc"
        unfolding m by simp
    }
  }
  {
    assume tofile: "localFile f \<noteq> ''-'' \<and> create_error w (localFile f) = None
          \<and> length (pending rc) \<le> space w"
    define w1 where "w1 = w\<lparr>fs := (fs w)(localFile f \<mapsto> '''')\<rparr>"
    have d: "fst (downloadFile L (verbose f) entry (OpenFile (localFile f)) w1) = Proceed None
       \<and> fs (snd (downloadFile L (verbose f) entry (OpenFile (localFile f)) w1)) =
           (fs w1)(localFile f \<mapsto> '''' @ pending rc)
       \<and> handed (snd (downloadFile L (verbose f) entry (OpenFile (localFile f)) w1)) =
           (handed w1)(OpenFile (localFile f) := handed w1 (OpenFile (localFile f)) @ pending rc)
       \<and> (\<not> verbose f \<longrightarrow>
            stdout (snd (downloadFile L (verbose f) entry (OpenFile (localFile f)) w1)) = stdout w1)"
      using ok tofile by (intro downloadFile_file) (simp_all add: w1_def)
    have m: "main L f w = (Exit 0, snd (downloadFile L (verbose f) entry (OpenFile (localFile f)) w1))"
      using ok tofile d by (simp add: main_def Let_def main_end os_Create_def w1_def)
    from d show "fst (main L f w) = Exit 0"
      unfolding m by simp
    from d show "fs (snd (main L f w)) = (fs w)(localFile f \<mapsto> pending rc)"
      unfolding m by (simp add: w1_def)
    from d show "handed (snd (main L f w)) =
             (handed w)(OpenFile (localFile f) := handed w (OpenFile (localFile f)) @ pending rc)"
      unfolding m by (simp add: w1_def)
    {
      assume "\<not> verbose f"
      with d show "stdout (snd (main L f w)) = stdout w"
        unfolding m by (simp add: w1_def)
    }
  }
qed

theorem main_sink_witness:
  "fst (main sample_libs sample_flags sample_world) = Exit 0
   \<and> fs (snd (main sample_libs sample_flags sample_world)) ''out.bin'' = Some ''abc''
   \<and> fs (snd (main sample_libs sample_flags sample_world)) ''-'' = None
   \<and> handed (snd (main sample_libs sample_flags sample_world)) (OpenFile ''out.bin'') = ''abc''
   \<and> handed (snd (main sample_libs sample_flags sample_world)) Stdout = ''''
   \<and> stdout (snd (main sample_libs sample_flags sample_world)) = ''''
   \<and> fst (main sample_libs (sample_flags\<lparr>localFile := ''-''\<rparr>) sample_world) = Exit 0
   \<and> fs (snd (main sample_libs (sample_flags\<lparr>localFile := ''-''\<rparr>) sample_world)) ''-'' = None
   \<and> handed (snd (main sample_libs (sample_flags\<lparr>localFile := ''-''\<rparr>) sample_world)) Stdout = ''abc''
   \<and> stdout (snd (main sample_libs (sample_flags\<lparr>localFile := ''-''\<rparr>) sample_world)) = ''abc''"
  using main_sink [where L = sample_libs and f = sample_flags and w = sample_world
      and reader = "()" and zipreader = sample_archive and entry = sample_entry
      and rc = "\<lparr>pending = ''abc'', failure = EOF\<rparr>"]
    main_sink [where L = sample_libs and f = "sample_flags\<lparr>localFile := ''-''\<rparr>"
      and w = sample_world and reader = "()" and zipreader = sample_archive
      and entry = sample_entry and rc = "\<lparr>pending = ''abc'', failure = EOF\<rparr>"]
  by (simp add: sample_libs_def sample_flags_def sample_world_def sample_archive_def
      sample_entry_def empty_entry_def findFile_def)

section \<open>Properties of \<^verbatim>\<open>init\<close> and of the remote range source\<close>

lemma length_filepath_Base: "r \<noteq> [] \<Longrightarrow> length (filepath_Base r) \<le> length r"
proof -
  assume r: "r \<noteq> []"
  have "length (last_element (strip_trailing r)) \<le> length (strip_trailing r)"
    using length_takeWhile_le [of "\<lambda>c. c \<noteq> CHR ''/''" "rev (strip_trailing r)"]
    by (simp add: last_element_def)
  also have "\<dots> \<le> length r"
    using length_dropWhile_le [of "\<lambda>c. c = CHR ''/''" "rev r"] by (simp add: strip_trailing_def)
  finally have "length (last_element (strip_trailing r)) \<le> length r" .
  moreover have "1 \<le> length r"
    using r by (cases r) simp_all
  ultimately show ?thesis
    using r by (simp add: filepath_Base_def Let_def)
qed

lemma filepath_Base_plain:
  assumes "r \<noteq> []" and "CHR ''/'' \<notin> set r"
  shows "filepath_Base r = r"
proof -
  have dw: "dropWhile (\<lambda>c. c = CHR ''/'') (rev r) = rev r"
    using assms by (cases "rev r") auto
  have s: "strip_trailing r = r"
    unfolding strip_trailing_def dw by simp
  have tw: "takeWhile (\<lambda>c. c \<noteq> CHR ''/'') (rev r) = rev r"
    using assms(2) by auto
  have "last_element r = r"
    unfolding last_element_def tw by simp
  with s assms(1) show ?thesis
    by (simp add: filepath_Base_def)
qed


lemma fixture_window:
  assumes "0 < len" and "offset + len \<le> length obj"
  shows "fixture_server obj lat offset (offset + len - 1) =
           Some \<lparr>status = 206, served_from = offset, total = Some (length obj),
                 body = take len (drop offset obj), delay = lat offset (offset + len - 1)\<rparr>"
  using assms by (simp add: fixture_server_def)

lemma NewReader_fixture:
  assumes "NewReader (fixture_server obj lat) rg = Inr src"
  shows "ranger src = rg" and "Length src = length obj"
  using assms
  by (auto simp: NewReader_def fixture_server_def Length_def split: if_splits)

lemma ReadAt_fixture_ok:
  assumes "NewReader (fixture_server obj lat) rg = Inr src"
    and "0 < len" and "offset + len \<le> length obj"
    and "lat offset (offset + len - 1) \<le> Timeout (Client rg)"
  shows "ReadAt (fixture_server obj lat) src offset len = Inr (take len (drop offset obj))"
  using assms(2-4) NewReader_fixture [OF assms(1)] fixture_window [OF assms(2,3), of lat]
  by (simp add: ReadAt_def RangeFetcher_def)




section \<open>The claims about \<^verbatim>\<open>init\<close>, the client and the remote range source\<close>

text \<open>
  Claim C1. Against the fixture server holding the reference object, a source made by
  \<^verbatim>\<open>NewReader\<close> has the length of the object, and for every window with a positive length
  and \<open>offset + len \<le> Length\<close> whose response arrives within the client's timeout,
  \<^verbatim>\<open>ReadAt\<close> returns exactly \<open>len\<close> bytes, byte \<open>i\<close> of them being byte \<open>offset + i\<close>
  of the object.
\<close>

theorem ReadAt_returns_window:
  assumes "NewReader (fixture_server obj lat) rg = Inr src"
    and "0 < len" and "offset + len \<le> Length src"
    and "lat offset (offset + len - 1) \<le> Timeout (Client rg)"
  shows "Length src = length obj
       \<and> ReadAt (fixture_server obj lat) src offset len = Inr (take len (drop offset obj))
       \<and> length (take len (drop offset obj)) = len
       \<and> (\<forall>i < len. take len (drop offset obj) ! i = obj ! (offset + i))"
proof -
  have len: "Length src = length obj"
    by (rule NewReader_fixture(2) [OF assms(1)])
  with assms(3) have inside: "offset + len \<le> length obj"
    by simp
  have "ReadAt (fixture_server obj lat) src offset len = Inr (take len (drop offset obj))"
    by (rule ReadAt_fixture_ok [OF assms(1,2) inside assms(4)])
  with len inside show ?thesis
    by simp
qed

theorem ReadAt_returns_window_witness:
  "NewReader (fixture_server ''0123456789'' (\<lambda>lo hi. 1000)) (main_ranger sample_flags None)
     = Inr \<lparr>ranger = main_ranger sample_flags None, TotalLength = 10\<rparr>
   \<and> ReadAt (fixture_server ''0123456789'' (\<lambda>lo hi. 1000))
       \<lparr>ranger = main_ranger sample_flags None, TotalLength = 10\<rparr> 6 4 = Inr ''6789''"
  using ReadAt_returns_window [of "''0123456789''" "\<lambda>lo hi. 1000" "main_ranger sample_flags None"
      "\<lparr>ranger = main_ranger sample_flags None, TotalLength = 10\<rparr>" 4 6]
  by (simp add: NewReader_def fixture_server_def main_ranger_def sample_flags_def wrap64_def
      time_Second_def Length_def)




text \<open>
  Claim C9, amended. When \<^verbatim>\<open>-o\<close> is omitted in extraction mode, \<^verbatim>\<open>init\<close> sets the local
  file name to the prefix of the remote file name that is as long as
  \<^verbatim>\<open>filepath.Base(remoteFile)\<close>, and the slice expression never panics. The prefix is the
  base name whenever the remote file name has no separator; \<^verbatim>\<open>dir/a.txt\<close> gives
  \<^verbatim>\<open>dir/a\<close>, not \<^verbatim>\<open>a.txt\<close>.
\<close>

theorem init_default_localFile:
  assumes "flag_Parse flag_defaults args = Some f"
    and "sourceURL f \<noteq> ''''" and "\<not> showFiles f"
    and "remoteFile f \<noteq> ''''" and "localFile f = ''''"
  shows "init args =
           ('''', Proceed (f\<lparr>localFile := take (length (filepath_Base (remoteFile f))) (remoteFile f)\<rparr>))
       \<and> (CHR ''/'' \<notin> set (remoteFile f) \<longrightarrow>
            take (length (filepath_Base (remoteFile f))) (remoteFile f) = filepath_Base (remoteFile f))
       \<and> filepath_Base ''dir/a.txt'' = ''a.txt''
       \<and> take (length (filepath_Base ''dir/a.txt'')) ''dir/a.txt'' = ''dir/a''"
proof -
  have "\<not> length (remoteFile f) < length (filepath_Base (remoteFile f))"
    using length_filepath_Base [OF assms(4)] by simp
  then have "init args =
           ('''', Proceed (f\<lparr>localFile := take (length (filepath_Base (remoteFile f))) (remoteFile f)\<rparr>))"
    using assms by (simp add: init_def Let_def)
  moreover have "take (length (filepath_Base (remoteFile f))) (remoteFile f) = filepath_Base (remoteFile f)"
    if "CHR ''/'' \<notin> set (remoteFile f)"
    using filepath_Base_plain [OF assms(4) that] by simp
  moreover have "filepath_Base ''dir/a.txt'' = ''a.txt''"
    by (simp add: filepath_Base_def strip_trailing_def last_element_def)
  ultimately show ?thesis
    by simp
qed

theorem init_default_localFile_witness:
  "init [Flag_u ''http://host/a.zip'', Flag_r ''data.bin''] =
     ('''', Proceed \<lparr>sourceURL = ''http://host/a.zip'', remoteFile = ''data.bin'',
                     localFile = ''data.bin'', timeout = 5, verbose = False, showFiles = False\<rparr>)
   \<and> init [Flag_u ''http://host/a.zip'', Flag_r ''dir/a.txt''] =
     ('''', Proceed \<lparr>sourceURL = ''http://host/a.zip'', remoteFile = ''dir/a.txt'',
                     localFile = ''dir/a'', timeout = 5, verbose = False, showFiles = False\<rparr>)"
  using init_default_localFile [of "[Flag_u ''http://host/a.zip'', Flag_r ''data.bin'']"
      "\<lparr>sourceURL = ''http://host/a.zip'', remoteFile = ''data.bin'',
        localFile = '''', timeout = 5, verbose = False, showFiles = False\<rparr>"]
    init_default_localFile [of "[Flag_u ''http://host/a.zip'', Flag_r ''dir/a.txt'']"
      "\<lparr>sourceURL = ''http://host/a.zip'', remoteFile = ''dir/a.txt'',
        localFile = '''', timeout = 5, verbose = False, showFiles = False\<rparr>"]
  by (simp add: flag_defaults_def filepath_Base_def strip_trailing_def last_element_def)

text \<open>
  Claim C9 as stated says that the prefix is the base name only when the remote file name
  has no separator. For \<^verbatim>\<open>a/a\<close> the prefix is \<^verbatim>\<open>a\<close>, which is the base name.
\<close>

theorem init_default_localFile_counterexample:
  "init [Flag_u ''http://host/a.zip'', Flag_r ''a/a''] =
     ('''', Proceed \<lparr>sourceURL = ''http://host/a.zip'', remoteFile = ''a/a'',
                     localFile = ''a'', timeout = 5, verbose = False, showFiles = False\<rparr>)
   \<and> filepath_Base ''a/a'' = ''a''
   \<and> CHR ''/'' \<in> set ''a/a''
   \<and> \<not> (\<forall>r. r \<noteq> '''' \<longrightarrow> take (length (filepath_Base r)) r = filepath_Base r
            \<longrightarrow> CHR ''/'' \<notin> set r)"
proof -
  have b: "filepath_Base ''a/a'' = ''a''"
    by (simp add: filepath_Base_def strip_trailing_def last_element_def)
  have i: "init [Flag_u ''http://host/a.zip'', Flag_r ''a/a''] =
     ('''', Proceed \<lparr>sourceURL = ''http://host/a.zip'', remoteFile = ''a/a'',
                     localFile = ''a'', timeout = 5, verbose = False, showFiles = False\<rparr>)"
    by (simp add: init_def flag_defaults_def b)
  have "\<not> (''a/a'' \<noteq> '''' \<longrightarrow> take (length (filepath_Base ''a/a'')) ''a/a'' = filepath_Base ''a/a''
            \<longrightarrow> CHR ''/'' \<notin> set ''a/a'')"
    by (simp add: b)
  then have "\<not> (\<forall>r. r \<noteq> '''' \<longrightarrow> take (length (filepath_Base r)) r = filepath_Base r
            \<longrightarrow> CHR ''/'' \<notin> set r)"
    by blast
  with b i show ?thesis
    by simp
qed

end
